theory Spec2Isabelle
  imports Complex_Main
begin

section \<open>JavaScript values\<close>

text \<open>
  The numbers of \<^verbatim>\<open>climate.js\<close> are temperatures, durations in milliseconds and
  differences of timestamps. A number is modelled as a real or \<open>NaN\<close>; rounding and the
  two infinities are left out. Every comparison with \<open>NaN\<close> is false and every
  arithmetic operation on \<open>NaN\<close> gives \<open>NaN\<close>, as in the language.
\<close>

datatype number = NaN | Num real

fun lt :: "number \<Rightarrow> number \<Rightarrow> bool" where
  "lt (Num a) (Num b) = (a < b)"
| "lt _ _ = False"

fun le :: "number \<Rightarrow> number \<Rightarrow> bool" where
  "le (Num a) (Num b) = (a \<le> b)"
| "le _ _ = False"

fun gt :: "number \<Rightarrow> number \<Rightarrow> bool" where
  "gt (Num a) (Num b) = (a > b)"
| "gt _ _ = False"

fun ge :: "number \<Rightarrow> number \<Rightarrow> bool" where
  "ge (Num a) (Num b) = (a \<ge> b)"
| "ge _ _ = False"

fun add :: "number \<Rightarrow> number \<Rightarrow> number" where
  "add (Num a) (Num b) = Num (a + b)"
| "add _ _ = NaN"

fun sub :: "number \<Rightarrow> number \<Rightarrow> number" where
  "sub (Num a) (Num b) = Num (a - b)"
| "sub _ _ = NaN"

fun mul :: "number \<Rightarrow> number \<Rightarrow> number" where
  "mul (Num a) (Num b) = Num (a * b)"
| "mul _ _ = NaN"

text \<open>\<^verbatim>\<open>Math.abs\<close>\<close>

fun math_abs :: "number \<Rightarrow> number" where
  "math_abs (Num a) = Num \<bar>a\<bar>"
| "math_abs NaN = NaN"

text \<open>\<^verbatim>\<open>isNaN\<close> on a number\<close>

fun isNaN :: "number \<Rightarrow> bool" where
  "isNaN NaN = True"
| "isNaN (Num a) = False"

datatype jsval = JUndefined | JNull | JBool bool | JNumber number | JString string

text \<open>
  \<^verbatim>\<open>parseFloat\<close> is a builtin of the language. On a number it gives the number back
  (the number is printed and read again); on \<^verbatim>\<open>null\<close>, \<^verbatim>\<open>undefined\<close> and the
  booleans it gives \<open>NaN\<close> (their printed forms start with no digit). How it reads a
  string is not code of this repository: it is the parameter \<open>pf\<close> of every function
  that parses.
\<close>

type_synonym strparser = "string \<Rightarrow> number"

fun parseFloat :: "strparser \<Rightarrow> jsval \<Rightarrow> number" where
  "parseFloat pf (JNumber n) = n"
| "parseFloat pf (JString s) = pf s"
| "parseFloat pf JUndefined = NaN"
| "parseFloat pf JNull = NaN"
| "parseFloat pf (JBool b) = NaN"

text \<open>\<^verbatim>\<open>String.prototype.endsWith\<close>\<close>

definition endsWith :: "string \<Rightarrow> string \<Rightarrow> bool" where
  "endsWith s t = (length t \<le> length s \<and> drop (length s - length t) s = t)"

section \<open>The node\<close>

datatype modev = Off | Heat | Cool | Auto

datatype action = Heating | Cooling | NoAction

fun mode_name :: "modev \<Rightarrow> string" where
  "mode_name Off = ''off''"
| "mode_name Heat = ''heat''"
| "mode_name Cool = ''cool''"
| "mode_name Auto = ''auto''"

fun action_name :: "action \<Rightarrow> string" where
  "action_name Heating = ''heating''"
| "action_name Cooling = ''cooling''"
| "action_name NoAction = ''none''"

text \<open>
  The object \<^verbatim>\<open>node.setpoint\<close> that \<^verbatim>\<open>initSetpoint\<close> builds: its two properties
  \<^verbatim>\<open>current\<close> and \<^verbatim>\<open>lastChange\<close> (both \<^verbatim>\<open>undefined\<close> until the first accepted
  \<^verbatim>\<open>set\<close>) and the \<^verbatim>\<open>defaultSetpoint\<close> its closures captured.
\<close>

record setpoint_store =
  sp_current :: "number option"
  sp_lastChange :: "int option"
  defaultSetpoint :: jsval

text \<open>The payload of an update message and of a status publish.\<close>

record payload =
  pl_name :: string
  pl_mode :: string
  pl_temperature :: jsval
  pl_action :: string
  pl_heatSetpoint :: jsval
  pl_coolSetpoint :: jsval
  pl_connected :: bool

text \<open>
  What the node hands to its host: \<^verbatim>\<open>node.status\<close> (fill, shape, text),
  \<^verbatim>\<open>node.send([null, msg])\<close> (topic, device id, payload) and
  \<^verbatim>\<open>node.broker.publish\<close> (topic, payload).
\<close>

datatype emission =
    StatusEv string string string
  | UpdateEv "string option" string payload
  | PublishEv string payload

text \<open>
  The fields of the node. A timestamp is a \<^verbatim>\<open>moment\<close> object, modelled by its
  milliseconds since the epoch; \<open>None\<close> is \<^verbatim>\<open>null\<close> or \<^verbatim>\<open>undefined\<close>. The field
  \<open>setpoint\<close> is \<open>None\<close> when \<^verbatim>\<open>initSetpoint\<close> returned before building the
  object. \<open>ctx\<close> is the host's context store, \<open>emitted\<close> the messages handed to the host so
  far, oldest first.
\<close>

record node =
  name :: string
  deviceId :: string
  topic :: "string option"
  advertise :: bool
  broker :: bool
  starting :: bool
  keepAliveMs :: number
  cycleDelayMs :: number
  boostDurationMins :: number
  defaultHeatSetpoint :: number
  defaultCoolSetpoint :: number
  tolerance :: number
  minTemp :: number
  maxTemp :: number
  tempValidMs :: number
  swapDelayMs :: number
  hasHeating :: bool
  hasCooling :: bool
  hasSetpoint :: bool
  defaultMode :: modev
  lastChange :: "modev option"
  lastAction :: "action option"
  lastTemp :: "number option"
  lastTempTime :: "int option"
  lastHeatTime :: "int option"
  lastCoolTime :: "int option"
  lastSend :: "int option"
  setpoint :: "setpoint_store option"
  override :: "bool option"
  ctx :: "string \<rightharpoonup> jsval"
  emitted :: "emission list"

text \<open>
  \<^verbatim>\<open>x.diff(y || 0)\<close> for a timestamp \<open>y\<close> that may be unset: a \<^verbatim>\<open>moment\<close> object is
  always truthy, so only \<^verbatim>\<open>null\<close> and \<^verbatim>\<open>undefined\<close> fall back to the epoch.
\<close>

fun diff_or0 :: "int \<Rightarrow> int option \<Rightarrow> number" where
  "diff_or0 now None = Num (of_int now)"
| "diff_or0 now (Some t) = Num (of_int (now - t))"

definition isConnected :: "int \<Rightarrow> node \<Rightarrow> bool" where
  "isConnected now n = lt (diff_or0 now (lastSend n)) (keepAliveMs n)"

definition isHeating :: "node \<Rightarrow> bool" where
  "isHeating n = (lastAction n = Some Heating)"

definition isCooling :: "node \<Rightarrow> bool" where
  "isCooling n = (lastAction n = Some Cooling)"

text \<open>\<^verbatim>\<open>getStoredValue\<close>: a key the store lacks reads as \<^verbatim>\<open>undefined\<close>.\<close>

definition getStoredValue :: "node \<Rightarrow> string \<Rightarrow> jsval \<Rightarrow> jsval" where
  "getStoredValue n key defaultValue =
     (case ctx n key of
        None \<Rightarrow> defaultValue
      | Some storedValue \<Rightarrow> if storedValue \<noteq> JUndefined then storedValue else defaultValue)"

definition getHeatSetpoint :: "node \<Rightarrow> jsval" where
  "getHeatSetpoint n = getStoredValue n ''heatSetpoint'' (JNumber (defaultHeatSetpoint n))"

definition getCoolSetpoint :: "node \<Rightarrow> jsval" where
  "getCoolSetpoint n = getStoredValue n ''coolSetpoint'' (JNumber (defaultCoolSetpoint n))"

text \<open>
  \<^verbatim>\<open>calculateAction(currentTemp, targetTemp)\<close>. The two tests
  \<^verbatim>\<open>heatSetpoint !== null\<close> and \<^verbatim>\<open>coolSetpoint !== null\<close> are on results of
  \<^verbatim>\<open>parseFloat\<close>, which are numbers and never \<^verbatim>\<open>null\<close>: they are always true.
\<close>

definition calculateAction :: "strparser \<Rightarrow> node \<Rightarrow> number \<Rightarrow> number \<Rightarrow> action" where
  "calculateAction pf n currentTemp targetTemp =
     (let heatSetpoint = parseFloat pf (getHeatSetpoint n);
          coolSetpoint = parseFloat pf (getCoolSetpoint n)
      in if lt currentTemp (sub targetTemp (tolerance n)) then
           (if lt currentTemp (sub heatSetpoint (tolerance n)) then Heating else NoAction)
         else if gt currentTemp (add targetTemp (tolerance n)) then
           (if gt currentTemp (add coolSetpoint (tolerance n)) then Cooling else NoAction)
         else NoAction)"

text \<open>
  \<^verbatim>\<open>updateStatus\<close>: the text is \<^verbatim>\<open>node.lastChange\<close> once a mode has been set.
\<close>

definition updateStatus :: "int \<Rightarrow> node \<Rightarrow> node" where
  "updateStatus now n =
     n\<lparr>emitted := emitted n @
        [case lastChange n of
           None \<Rightarrow>
             StatusEv ''blue'' ''dot''
               (if isConnected now n then ''connected'' else ''disconnected'')
         | Some m \<Rightarrow>
             StatusEv (if isHeating n then ''red'' else if isCooling n then ''blue'' else ''green'')
               ''ring'' (mode_name m)]\<rparr>"

text \<open>
  \<^verbatim>\<open>node.lastTemp || noneValue\<close>: \<^verbatim>\<open>null\<close>, \<open>NaN\<close> and 0 are falsy.
\<close>

fun temp_or_none :: "number option \<Rightarrow> jsval" where
  "temp_or_none None = JString ''none''"
| "temp_or_none (Some NaN) = JString ''none''"
| "temp_or_none (Some (Num x)) = (if x = 0 then JString ''none'' else JNumber (Num x))"

text \<open>The payload that \<^verbatim>\<open>updateNode\<close> and \<^verbatim>\<open>sendStatusUpdate\<close> both build.\<close>

definition mk_payload :: "int \<Rightarrow> node \<Rightarrow> payload" where
  "mk_payload now n =
     \<lparr>pl_name = name n,
      pl_mode = (case lastChange n of None \<Rightarrow> ''none'' | Some m \<Rightarrow> mode_name m),
      pl_temperature = temp_or_none (lastTemp n),
      pl_action = (case lastAction n of None \<Rightarrow> ''none'' | Some a \<Rightarrow> action_name a),
      pl_heatSetpoint = getHeatSetpoint n,
      pl_coolSetpoint = getCoolSetpoint n,
      pl_connected = isConnected now n\<rparr>"

definition updateNode :: "int \<Rightarrow> node \<Rightarrow> node" where
  "updateNode now n =
     (let n1 = updateStatus now n
      in n1\<lparr>emitted := emitted n1 @ [UpdateEv (topic n1) (deviceId n1) (mk_payload now n1)]\<rparr>)"

text \<open>
  \<^verbatim>\<open>updateTemperature(temp)\<close>. Its one caller passes a result of \<^verbatim>\<open>parseFloat\<close>,
  and the function itself tests for \<^verbatim>\<open>null\<close>: \<open>temp\<close> is a number or \<^verbatim>\<open>null\<close>
  (\<open>None\<close>). \<^verbatim>\<open>node.lastTempTime\<close> is never initialised, so it is \<^verbatim>\<open>undefined\<close> until
  the first accepted reading.
\<close>

fun updateTemperature :: "int \<Rightarrow> number option \<Rightarrow> node \<Rightarrow> node" where
  "updateTemperature now None n = n"
| "updateTemperature now (Some temp) n =
     (if ge temp (minTemp n) \<and> le temp (maxTemp n) \<and>
         (case lastTemp n of
            None \<Rightarrow> True
          | Some prior \<Rightarrow>
              le (math_abs (sub temp prior)) (tolerance n) \<or>
              gt (diff_or0 now (lastTempTime n)) (swapDelayMs n))
      then n\<lparr>lastTemp := Some temp, lastTempTime := Some now\<rparr>
      else n)"

section \<open>The setpoint store\<close>

text \<open>
  The closure \<^verbatim>\<open>set\<close> of the setpoint object, on the object's own properties.
\<close>

definition store_set :: "strparser \<Rightarrow> int \<Rightarrow> node \<Rightarrow> jsval \<Rightarrow> setpoint_store \<Rightarrow> setpoint_store" where
  "store_set pf now n v s =
     (if hasSetpoint n \<and> v \<noteq> JNull then
        (let newSetpoint = parseFloat pf v
         in if \<not> isNaN newSetpoint \<and> ge newSetpoint (minTemp n) \<and> le newSetpoint (maxTemp n)
            then s\<lparr>sp_current := Some newSetpoint, sp_lastChange := Some now\<rparr>
            else s)
      else s)"

text \<open>
  The closure \<^verbatim>\<open>get\<close>. \<^verbatim>\<open>this.lastChange\<close> is a \<^verbatim>\<open>moment\<close> object or \<^verbatim>\<open>undefined\<close>.
\<close>

definition store_get :: "int \<Rightarrow> node \<Rightarrow> setpoint_store \<Rightarrow> jsval" where
  "store_get now n s =
     (case sp_lastChange s of
        None \<Rightarrow> defaultSetpoint s
      | Some t \<Rightarrow>
          if hasSetpoint n \<and> le (Num (of_int (now - t))) (tempValidMs n)
          then (case sp_current s of None \<Rightarrow> JUndefined | Some x \<Rightarrow> JNumber x)
          else defaultSetpoint s)"

text \<open>
  A call ends normally or throws. \<^verbatim>\<open>node.setpoint.set(...)\<close> and
  \<^verbatim>\<open>node.setpoint.get()\<close> read a property of \<^verbatim>\<open>node.setpoint\<close>; when that is
  \<^verbatim>\<open>undefined\<close> the language throws a \<^verbatim>\<open>TypeError\<close>. Either way the outcome carries
  the node as the call left it.
\<close>

datatype outcome = Done node | TypeError node

fun state_of :: "outcome \<Rightarrow> node" where
  "state_of (Done n) = n"
| "state_of (TypeError n) = n"

fun and_then :: "outcome \<Rightarrow> (node \<Rightarrow> outcome) \<Rightarrow> outcome" where
  "and_then (Done n) f = f n"
| "and_then (TypeError n) f = TypeError n"

text \<open>\<^verbatim>\<open>node.setpoint.set(v)\<close>\<close>

definition setpoint_set :: "strparser \<Rightarrow> int \<Rightarrow> jsval \<Rightarrow> node \<Rightarrow> outcome" where
  "setpoint_set pf now v n =
     (case setpoint n of
        None \<Rightarrow> TypeError n
      | Some s \<Rightarrow> Done (n\<lparr>setpoint := Some (store_set pf now n v s)\<rparr>))"

text \<open>\<^verbatim>\<open>node.setpoint.get()\<close>: \<open>None\<close> is the \<^verbatim>\<open>TypeError\<close>.\<close>

definition setpoint_get :: "int \<Rightarrow> node \<Rightarrow> jsval option" where
  "setpoint_get now n = map_option (store_get now n) (setpoint n)"

text \<open>\<^verbatim>\<open>node.override.set(state)\<close> and \<^verbatim>\<open>node.override.get()\<close>\<close>

definition override_set :: "jsval \<Rightarrow> node \<Rightarrow> node" where
  "override_set state n = n\<lparr>override := Some (state = JBool True)\<rparr>"

definition override_get :: "node \<Rightarrow> bool" where
  "override_get n = (override n = Some True)"

section \<open>Action and mode\<close>

definition updateAction :: "strparser \<Rightarrow> int \<Rightarrow> node \<Rightarrow> outcome" where
  "updateAction pf now n =
     (case lastTemp n of
        None \<Rightarrow> Done (n\<lparr>lastAction := Some NoAction\<rparr>)
      | Some t \<Rightarrow>
          (case setpoint_get now n of
             None \<Rightarrow> TypeError n
           | Some target \<Rightarrow>
               Done (n\<lparr>lastAction := Some (calculateAction pf n t (parseFloat pf target))\<rparr>)))"

text \<open>
  \<^verbatim>\<open>sendStatusUpdate\<close>. \<^verbatim>\<open>node.topic\<close> is a string or \<^verbatim>\<open>null\<close>; the empty string is
  falsy.
\<close>

definition can_publish :: "node \<Rightarrow> bool" where
  "can_publish n =
     (advertise n \<and> broker n \<and> (case topic n of None \<Rightarrow> False | Some t \<Rightarrow> t \<noteq> []))"

definition sendStatusUpdate :: "int \<Rightarrow> node \<Rightarrow> node" where
  "sendStatusUpdate now n =
     (if can_publish n then
        n\<lparr>emitted := emitted n @
             [PublishEv (case topic n of None \<Rightarrow> [] | Some t \<Rightarrow> t @ ''/status'')
                (mk_payload now n)],
          lastSend := Some now\<rparr>
      else n)"

definition handleModeChange :: "strparser \<Rightarrow> int \<Rightarrow> modev \<Rightarrow> node \<Rightarrow> outcome" where
  "handleModeChange pf now newMode n =
     (let n1 = n\<lparr>lastChange := Some newMode, lastHeatTime := None, lastCoolTime := None\<rparr>
      in if newMode = Off then
           and_then (setpoint_set pf now JNull (n1\<lparr>lastAction := Some NoAction\<rparr>))
             (\<lambda>n2. Done (updateNode now (override_set (JBool False) n2)))
         else
           and_then
             (if defaultMode n1 = Auto then
                (if newMode = Heat then setpoint_set pf now (getHeatSetpoint n1) n1
                 else if newMode = Cool then setpoint_set pf now (getCoolSetpoint n1) n1
                 else Done n1)
              else Done n1)
             (\<lambda>n2. and_then (updateAction pf now n2) (\<lambda>n3. Done (updateNode now n3))))"

text \<open>\<^verbatim>\<open>node.action.set(action)\<close>\<close>

definition action_set :: "strparser \<Rightarrow> int \<Rightarrow> jsval \<Rightarrow> node \<Rightarrow> outcome" where
  "action_set pf now a n =
     (if a = JString ''heating'' \<and> hasHeating n then handleModeChange pf now Heat n
      else if a = JString ''cooling'' \<and> hasCooling n then handleModeChange pf now Cool n
      else if a = JString ''none'' then handleModeChange pf now Auto n
      else Done n)"

definition action_get :: "node \<Rightarrow> action" where
  "action_get n =
     (if lastAction n = Some Heating \<and> hasHeating n then Heating
      else if lastAction n = Some Cooling \<and> hasCooling n then Cooling
      else NoAction)"

text \<open>\<^verbatim>\<open>node.mode.set(mode)\<close>\<close>

definition mode_set :: "strparser \<Rightarrow> int \<Rightarrow> jsval \<Rightarrow> node \<Rightarrow> outcome" where
  "mode_set pf now m n =
     (if m = JString ''off'' then handleModeChange pf now Off n
      else if m = JString ''heat'' \<and> hasHeating n then handleModeChange pf now Heat n
      else if m = JString ''cool'' \<and> hasCooling n then handleModeChange pf now Cool n
      else handleModeChange pf now Auto n)"

definition mode_get :: "node \<Rightarrow> modev" where
  "mode_get n = (case lastChange n of None \<Rightarrow> defaultMode n | Some m \<Rightarrow> m)"

section \<open>The update loop\<close>

text \<open>\<^verbatim>\<open>node.lastTemp\<close> as the value \<^verbatim>\<open>parseFloat\<close> is called on.\<close>

fun temp_val :: "number option \<Rightarrow> jsval" where
  "temp_val None = JNull"
| "temp_val (Some x) = JNumber x"

text \<open>
  \<^verbatim>\<open>x && now.diff(x) >= node.boostDurationMins * 60 * 1000\<close> for a run timestamp \<open>x\<close>.
\<close>

fun run_expired :: "int \<Rightarrow> int option \<Rightarrow> number \<Rightarrow> bool" where
  "run_expired now None boost = False"
| "run_expired now (Some t) boost =
     ge (Num (of_int (now - t))) (mul (mul boost (Num 60)) (Num 1000))"

text \<open>
  The two blocks in the middle of the update loop. The first stamps the run timestamp of
  the action in force; the second, the cutoff, compares the time since that timestamp
  with the boost duration.
\<close>

definition stampRunTime :: "int \<Rightarrow> node \<Rightarrow> node" where
  "stampRunTime now n =
     (if isHeating n then n\<lparr>lastHeatTime := Some now\<rparr>
      else if isCooling n then n\<lparr>lastCoolTime := Some now\<rparr>
      else n)"

definition runCutoff :: "int \<Rightarrow> node \<Rightarrow> node" where
  "runCutoff now n =
     (if isHeating n \<and> run_expired now (lastHeatTime n) (boostDurationMins n)
      then n\<lparr>lastAction := Some NoAction\<rparr>
      else if isCooling n \<and> run_expired now (lastCoolTime n) (boostDurationMins n)
      then n\<lparr>lastAction := Some NoAction\<rparr>
      else n)"

text \<open>
  One run of the callback of \<^verbatim>\<open>setInterval\<close>. The clock is read several times in
  one run; the reads are taken to give the same instant \<open>now\<close>.
\<close>

definition tick :: "strparser \<Rightarrow> int \<Rightarrow> node \<Rightarrow> outcome" where
  "tick pf now n =
     (if starting n \<or> \<not> isConnected now n then Done (updateStatus now n)
      else
        and_then (updateAction pf now n)
          (\<lambda>n1.
             let n2 = updateTemperature now (Some (parseFloat pf (temp_val (lastTemp n1)))) n1;
                 n3 = stampRunTime now n2;
                 n4 = runCutoff now n3
             in Done (updateStatus now (sendStatusUpdate now (updateNode now n4)))))"

section \<open>Inputs\<close>

text \<open>
  A message of the host: each property is present (\<open>Some\<close>) or absent, as
  \<^verbatim>\<open>hasOwnProperty\<close> tells.
\<close>

record msg =
  m_payload :: "jsval option"
  m_mode :: "jsval option"
  m_temperature :: "jsval option"
  m_setpoint :: "jsval option"
  m_override :: "jsval option"
  m_action :: "jsval option"

fun when_present :: "'a option \<Rightarrow> ('a \<Rightarrow> node \<Rightarrow> outcome) \<Rightarrow> node \<Rightarrow> outcome" where
  "when_present None f n = Done n"
| "when_present (Some v) f n = f v n"

text \<open>The handler of \<^verbatim>\<open>input\<close>; a throw skips the calls after it.\<close>

definition on_input :: "strparser \<Rightarrow> int \<Rightarrow> msg \<Rightarrow> node \<Rightarrow> outcome" where
  "on_input pf now m n =
     and_then (when_present (m_payload m) (mode_set pf now) n) (\<lambda>n1.
     and_then (when_present (m_mode m) (mode_set pf now) n1) (\<lambda>n2.
     and_then (when_present (m_temperature m) (setpoint_set pf now) n2) (\<lambda>n3.
     and_then (when_present (m_setpoint m) (setpoint_set pf now) n3) (\<lambda>n4.
     and_then (when_present (m_override m) (\<lambda>v x. Done (override_set v x)) n4) (\<lambda>n5.
     when_present (m_action m) (action_set pf now) n5)))))"

text \<open>The handler of \<^verbatim>\<open>mqttIn\<close>.\<close>

definition on_mqttIn :: "strparser \<Rightarrow> int \<Rightarrow> string \<Rightarrow> string \<Rightarrow> node \<Rightarrow> outcome" where
  "on_mqttIn pf now tp pl n =
     and_then (if endsWith tp ''/mode/set'' then mode_set pf now (JString pl) n else Done n)
       (\<lambda>n1. if endsWith tp ''/temperature/set'' then setpoint_set pf now (JString pl) n1
              else Done n1)"

datatype event = Input msg | MqttIn string string | Tick

fun step :: "strparser \<Rightarrow> int \<Rightarrow> event \<Rightarrow> node \<Rightarrow> outcome" where
  "step pf now (Input m) n = on_input pf now m n"
| "step pf now (MqttIn tp pl) n = on_mqttIn pf now tp pl n"
| "step pf now Tick n = tick pf now n"

text \<open>
  A run: the events in the order they are handled, each with the clock's reading. A
  handler that throws leaves the node as it was at the throw, and the run goes on from
  there: this covers a host that catches the error and keeps the node.
\<close>

fun run :: "strparser \<Rightarrow> node \<Rightarrow> (int \<times> event) list \<Rightarrow> node" where
  "run pf n [] = n"
| "run pf n ((now, e) # es) = run pf (state_of (step pf now e n)) es"

section \<open>Creating the node\<close>

text \<open>
  The configuration the host passes to the constructor. \<open>c_name\<close>, \<open>c_deviceId\<close> and
  \<open>c_topic\<close> are the three strings the constructor derives from \<^verbatim>\<open>config.name\<close>,
  \<^verbatim>\<open>config.topic\<close> and the node's id; \<open>c_boostDuration\<close> is \<^verbatim>\<open>config.boostDuration\<close>
  as the number the multiplication in the update loop converts it to; \<open>c_broker\<close> tells
  whether \<^verbatim>\<open>RED.nodes.getNode(config.broker)\<close> found a broker.
\<close>

record config =
  c_name :: string
  c_deviceId :: string
  c_topic :: "string option"
  c_advertise :: bool
  c_broker :: bool
  climateType :: string
  c_keepAlive :: jsval
  c_cycleDelay :: jsval
  c_boostDuration :: number
  c_defaultHeatSetpoint :: jsval
  c_defaultCoolSetpoint :: jsval
  c_tolerance :: jsval
  c_minTemp :: jsval
  c_maxTemp :: jsval
  c_tempValid :: jsval
  c_swapDelay :: jsval

text \<open>The constructor up to the call of \<^verbatim>\<open>node.init()\<close>.\<close>

definition construct :: "strparser \<Rightarrow> config \<Rightarrow> (string \<rightharpoonup> jsval) \<Rightarrow> node" where
  "construct pf c store =
     \<lparr>name = c_name c,
      deviceId = c_deviceId c,
      topic = c_topic c,
      advertise = c_advertise c,
      broker = c_broker c,
      starting = True,
      keepAliveMs = mul (mul (parseFloat pf (c_keepAlive c)) (Num 1000)) (Num 60),
      cycleDelayMs = mul (parseFloat pf (c_cycleDelay c)) (Num 1000),
      boostDurationMins = c_boostDuration c,
      defaultHeatSetpoint = parseFloat pf (c_defaultHeatSetpoint c),
      defaultCoolSetpoint = parseFloat pf (c_defaultCoolSetpoint c),
      tolerance = parseFloat pf (c_tolerance c),
      minTemp = parseFloat pf (c_minTemp c),
      maxTemp = parseFloat pf (c_maxTemp c),
      tempValidMs = mul (mul (parseFloat pf (c_tempValid c)) (Num 1000)) (Num 60),
      swapDelayMs = mul (mul (parseFloat pf (c_swapDelay c)) (Num 1000)) (Num 60),
      hasHeating = (climateType c = ''both'' \<or> climateType c = ''heat'' \<or> climateType c = ''manual''),
      hasCooling = (climateType c = ''both'' \<or> climateType c = ''cool'' \<or> climateType c = ''manual''),
      hasSetpoint = (climateType c \<noteq> ''manual''),
      defaultMode = (if climateType c = ''both'' then Auto
                     else if climateType c = ''cool'' then Cool else Heat),
      lastChange = None,
      lastAction = None,
      lastTemp = None,
      lastTempTime = None,
      lastHeatTime = None,
      lastCoolTime = None,
      lastSend = None,
      setpoint = None,
      override = None,
      ctx = store,
      emitted = []\<rparr>"

text \<open>\<^verbatim>\<open>initSetpoint\<close>: without the capability no setpoint object is built.\<close>

definition initSetpoint :: "node \<Rightarrow> node" where
  "initSetpoint n =
     (if \<not> hasSetpoint n then n
      else n\<lparr>setpoint := Some
             \<lparr>sp_current = None, sp_lastChange = None,
              defaultSetpoint = (if defaultMode n = Heat then getHeatSetpoint n
                                 else getCoolSetpoint n)\<rparr>\<rparr>)"

text \<open>
  \<^verbatim>\<open>init\<close>: the override, action and mode objects hold no data of their own beyond
  \<^verbatim>\<open>override.current\<close>, which starts \<^verbatim>\<open>undefined\<close>; the update loop's first run comes
  after \<^verbatim>\<open>starting\<close> is cleared.
\<close>

definition init :: "node \<Rightarrow> node" where
  "init n = (initSetpoint n)\<lparr>starting := False\<rparr>"

definition createNode :: "strparser \<Rightarrow> config \<Rightarrow> (string \<rightharpoonup> jsval) \<Rightarrow> node" where
  "createNode pf c store = init (construct pf c store)"

section \<open>Example nodes\<close>

text \<open>A parser that reads no string as a number, for nodes whose inputs are numbers.\<close>

definition no_strings :: strparser where
  "no_strings s = NaN"

text \<open>
  A heating-only controller with the editor's default durations: keep-alive 15 minutes,
  boost 30 minutes, temperature validity and swap delay 60 minutes.
\<close>

definition heat_cfg :: config where
  "heat_cfg =
     \<lparr>c_name = ''zone'', c_deviceId = ''zone-climate'', c_topic = Some ''home/zone-climate'',
      c_advertise = True, c_broker = True, climateType = ''heat'',
      c_keepAlive = JNumber (Num 15), c_cycleDelay = JNumber (Num 60), c_boostDuration = Num 30,
      c_defaultHeatSetpoint = JNumber (Num 18), c_defaultCoolSetpoint = JNumber (Num 24),
      c_tolerance = JNumber (Num 0.2), c_minTemp = JNumber (Num 5), c_maxTemp = JNumber (Num 25),
      c_tempValid = JNumber (Num 60), c_swapDelay = JNumber (Num 60)\<rparr>"

definition heat_node :: node where
  "heat_node = createNode no_strings heat_cfg Map.empty"

text \<open>The same node with a reading of 20 degrees and a status publish, both at time 1000.\<close>

definition warm_node :: node where
  "warm_node = heat_node\<lparr>lastTemp := Some (Num 20), lastTempTime := Some 1000,
                          lastSend := Some 1000\<rparr>"

text \<open>
  \<^verbatim>\<open>updateTemperature\<close> writes \<^verbatim>\<open>lastTemp\<close> and \<^verbatim>\<open>lastTempTime\<close> together: a node
  with a recorded reading has the time of that reading.
\<close>

definition timed_reading :: "node \<Rightarrow> bool" where
  "timed_reading n = (lastTemp n = None \<or> lastTempTime n \<noteq> None)"

text \<open>
  What no handler and no run of the update loop changes: the configuration, the context
  store and the default the setpoint object captured.
\<close>

definition fixed_part ::
  "node \<Rightarrow> (number \<times> bool \<times> bool \<times> modev) \<times> ((string \<rightharpoonup> jsval) \<times> number \<times> number \<times> number) \<times> jsval option" where
  "fixed_part n =
     ((keepAliveMs n, starting n, hasSetpoint n, defaultMode n),
      (ctx n, defaultHeatSetpoint n, defaultCoolSetpoint n, tempValidMs n),
      map_option defaultSetpoint (setpoint n))"

text \<open>
  The same with \<^verbatim>\<open>lastSend\<close>, which only a status publish writes, and the recorded
  reading with its time, which only \<^verbatim>\<open>updateTemperature\<close> writes.
\<close>

definition quiet_part :: "node \<Rightarrow> _ \<times> int option \<times> number option \<times> int option" where
  "quiet_part n = (fixed_part n, lastSend n, lastTemp n, lastTempTime n)"

text \<open>
  The clock reads no less than \<open>k\<close> milliseconds since the epoch at every event of a run.
\<close>

definition late_clock :: "number \<Rightarrow> (int \<times> event) list \<Rightarrow> bool" where
  "late_clock k es = list_all (\<lambda>(t, e). \<not> lt (Num (of_int t)) k) es"

text \<open>The heating-only controller with a keep-alive of 100 000 000 minutes.\<close>

definition patient_node :: node where
  "patient_node = createNode no_strings (heat_cfg\<lparr>c_keepAlive := JNumber (Num 100000000)\<rparr>) Map.empty"

text \<open>The controller of \<open>heat_cfg\<close> with both heating and cooling.\<close>

definition both_node :: node where
  "both_node = createNode no_strings (heat_cfg\<lparr>climateType := ''both''\<rparr>) Map.empty"

text \<open>An input message that sets the setpoint to 21 degrees.\<close>

definition set21 :: msg where
  "set21 = \<lparr>m_payload = None, m_mode = None, m_temperature = None,
            m_setpoint = Some (JNumber (Num 21)), m_override = None, m_action = None\<rparr>"

text \<open>The controller of \<open>heat_cfg\<close> with cooling only.\<close>

definition cool_node :: node where
  "cool_node = createNode no_strings (heat_cfg\<lparr>climateType := ''cool''\<rparr>) Map.empty"

text \<open>An input message that sets the mode to \<open>off\<close>.\<close>

definition off_msg :: msg where
  "off_msg = \<lparr>m_payload = None, m_mode = Some (JString ''off''), m_temperature = None,
              m_setpoint = None, m_override = None, m_action = None\<rparr>"

text \<open>The controller of \<open>heat_cfg\<close> of type \<open>manual\<close>, which has no setpoint capability.\<close>

definition manual_node :: node where
  "manual_node = createNode no_strings (heat_cfg\<lparr>climateType := ''manual''\<rparr>) Map.empty"

text \<open>
  A node with no recorded reading and no action in force.
\<close>

definition idle :: "node \<Rightarrow> bool" where
  "idle n = (lastTemp n = None \<and> \<not> isHeating n \<and> \<not> isCooling n)"

section \<open>Evaluating the example nodes\<close>

lemmas ev = heat_node_def heat_cfg_def createNode_def construct_def init_def initSetpoint_def
  getHeatSetpoint_def getCoolSetpoint_def getStoredValue_def no_strings_def

section \<open>The action calculator\<close>

lemma lt_sub_not_gt_add:
  "ge tol (Num 0) \<Longrightarrow> lt c (sub t tol) \<Longrightarrow> \<not> gt c (add t tol)"
  by (cases tol; cases c; cases t) auto

text \<open>
  C1. With a tolerance that is at least 0, \<open>calculateAction\<close> returns \<open>heating\<close> exactly
  when the current temperature is below both the target and the heat setpoint by more
  than the tolerance, \<open>cooling\<close> exactly when it is above both the target and the cool
  setpoint by more than the tolerance, and \<open>none\<close> in every other case. The heat and
  cool setpoints are the ones the function reads from the node.
\<close>

theorem calculateAction_spec:
  assumes "ge (tolerance n) (Num 0)"
    and "heatSetpoint = parseFloat pf (getHeatSetpoint n)"
    and "coolSetpoint = parseFloat pf (getCoolSetpoint n)"
  shows "((calculateAction pf n currentTemp targetTemp = Heating) =
           (lt currentTemp (sub targetTemp (tolerance n)) \<and>
            lt currentTemp (sub heatSetpoint (tolerance n)))) \<and>
         ((calculateAction pf n currentTemp targetTemp = Cooling) =
           (gt currentTemp (add targetTemp (tolerance n)) \<and>
            gt currentTemp (add coolSetpoint (tolerance n)))) \<and>
         ((calculateAction pf n currentTemp targetTemp = NoAction) =
           (\<not> (lt currentTemp (sub targetTemp (tolerance n)) \<and>
               lt currentTemp (sub heatSetpoint (tolerance n))) \<and>
            \<not> (gt currentTemp (add targetTemp (tolerance n)) \<and>
               gt currentTemp (add coolSetpoint (tolerance n)))))"
  using assms lt_sub_not_gt_add [of "tolerance n" currentTemp targetTemp]
  by (auto simp: calculateAction_def Let_def)

theorem calculateAction_spec_witness:
  "ge (tolerance both_node) (Num 0) \<and>
   calculateAction no_strings both_node (Num 16) (Num 18) = Heating \<and>
   calculateAction no_strings both_node (Num 17.8) (Num 18) = NoAction \<and>
   calculateAction no_strings both_node (Num 26) (Num 22) = Cooling \<and>
   calculateAction no_strings both_node (Num 24.2) (Num 22) = NoAction \<and>
   calculateAction no_strings both_node (Num 17) (Num 30) = Heating \<and>
   calculateAction no_strings both_node (Num 19) (Num 30) = NoAction"
proof -
  have h: "ge (tolerance both_node) (Num 0)" by (simp add: both_node_def ev)
  from calculateAction_spec [OF h refl refl, of no_strings "Num 16" "Num 18"]
       calculateAction_spec [OF h refl refl, of no_strings "Num 17.8" "Num 18"]
       calculateAction_spec [OF h refl refl, of no_strings "Num 26" "Num 22"]
       calculateAction_spec [OF h refl refl, of no_strings "Num 24.2" "Num 22"]
       calculateAction_spec [OF h refl refl, of no_strings "Num 17" "Num 30"]
       calculateAction_spec [OF h refl refl, of no_strings "Num 19" "Num 30"]
  show ?thesis using h by (simp add: both_node_def ev)
qed

section \<open>The temperature tracker\<close>

lemma ge_not_NaN: "ge x m \<Longrightarrow> \<not> isNaN x"
  by (cases x) auto

lemma updateTemperature_timed: "timed_reading n \<Longrightarrow> timed_reading (updateTemperature now temp n)"
  by (cases temp) (auto simp: timed_reading_def)

text \<open>
  C4. \<open>updateTemperature\<close> records the reading, with the current time, exactly when the
  reading is not \<^verbatim>\<open>null\<close>, is not \<open>NaN\<close>, lies within \<open>[minTemp, maxTemp]\<close> and, besides,
  no reading is recorded yet, or the reading is within the tolerance of the recorded one,
  or more than \<open>swapDelayMs\<close> have passed since the recorded one was taken; any other
  reading leaves the node, so the recorded reading and its time, as it was.
\<close>

theorem updateTemperature_spec:
  assumes "timed_reading n"
  shows "updateTemperature now temp n =
     (if \<exists>x. temp = Some x \<and> \<not> isNaN x \<and> ge x (minTemp n) \<and> le x (maxTemp n) \<and>
              (lastTemp n = None \<or>
               (\<exists>prior. lastTemp n = Some prior \<and> le (math_abs (sub x prior)) (tolerance n)) \<or>
               (\<exists>t. lastTempTime n = Some t \<and> gt (Num (of_int (now - t))) (swapDelayMs n)))
      then n\<lparr>lastTemp := temp, lastTempTime := Some now\<rparr>
      else n)"
proof (cases temp)
  case None
  then show ?thesis by simp
next
  case x: (Some x)
  show ?thesis
  proof (cases "lastTemp n")
    case None
    with x ge_not_NaN [of x "minTemp n"] show ?thesis by auto
  next
    case (Some prior)
    with assms obtain t where t: "lastTempTime n = Some t"
      by (auto simp: timed_reading_def)
    from Some t x ge_not_NaN [of x "minTemp n"] show ?thesis
      by auto
  qed
qed

theorem updateTemperature_spec_witness:
  "timed_reading warm_node \<and>
   updateTemperature 2000 (Some (Num 20.1)) warm_node =
     warm_node\<lparr>lastTemp := Some (Num 20.1), lastTempTime := Some 2000\<rparr> \<and>
   updateTemperature 2000 (Some (Num 23)) warm_node = warm_node \<and>
   updateTemperature 3601001 (Some (Num 23)) warm_node =
     warm_node\<lparr>lastTemp := Some (Num 23), lastTempTime := Some 3601001\<rparr> \<and>
   updateTemperature 2000 (Some (Num 30)) warm_node = warm_node \<and>
   updateTemperature 2000 (Some NaN) warm_node = warm_node \<and>
   updateTemperature 2000 None warm_node = warm_node"
proof -
  have h: "timed_reading warm_node" by (simp add: timed_reading_def warm_node_def)
  from updateTemperature_spec [OF h, of 2000 "Some (Num 20.1)"]
       updateTemperature_spec [OF h, of 2000 "Some (Num 23)"]
       updateTemperature_spec [OF h, of 3601001 "Some (Num 23)"]
       updateTemperature_spec [OF h, of 2000 "Some (Num 30)"]
       updateTemperature_spec [OF h, of 2000 "Some NaN"]
       updateTemperature_spec [OF h, of 2000 None]
  show ?thesis using h by (simp add: warm_node_def ev)
qed

section \<open>Liveness\<close>

text \<open>
  C8. With a status publish at time \<open>t\<close>, \<open>isConnected\<close> at time \<open>now\<close> is true exactly
  when \<open>now - t\<close> is strictly below \<open>keepAliveMs\<close>; when exactly \<open>keepAliveMs\<close> have passed
  it is false.
\<close>

theorem isConnected_spec:
  assumes "lastSend n = Some t"
  shows "isConnected now n = lt (Num (of_int (now - t))) (keepAliveMs n) \<and>
         (keepAliveMs n = Num (of_int (now - t)) \<longrightarrow> \<not> isConnected now n)"
  using assms by (simp add: isConnected_def)

theorem isConnected_spec_witness:
  "lastSend warm_node = Some 1000 \<and> isConnected 2000 warm_node \<and>
   \<not> isConnected 901000 warm_node"
  using isConnected_spec [of warm_node 1000 2000] isConnected_spec [of warm_node 1000 901000]
  by (simp add: warm_node_def ev)

section \<open>The action before the first reading\<close>

text \<open>
  C10. While no reading is recorded, \<open>updateAction\<close> sets the action to \<open>none\<close> and
  nothing else: neither \<open>calculateAction\<close> nor the setpoint is consulted, so the call
  ends normally even on a node that has no setpoint object.
\<close>

theorem updateAction_no_temperature:
  assumes "lastTemp n = None"
  shows "updateAction pf now n = Done (n\<lparr>lastAction := Some NoAction\<rparr>)"
  using assms by (simp add: updateAction_def)

theorem updateAction_no_temperature_witness:
  "lastTemp heat_node = None \<and>
   updateAction no_strings 5000 heat_node = Done (heat_node\<lparr>lastAction := Some NoAction\<rparr>)"
  using updateAction_no_temperature [of heat_node no_strings 5000]
  by (simp add: ev)

section \<open>What the handlers leave alone\<close>

lemma and_then_keeps:
  "(\<And>x. g (state_of (f x)) = g x) \<Longrightarrow> g (state_of (and_then out f)) = g (state_of out)"
  by (cases out) simp_all

lemma updateStatus_quiet: "quiet_part (updateStatus now n) = quiet_part n"
  by (simp add: quiet_part_def fixed_part_def updateStatus_def)

lemma updateNode_quiet: "quiet_part (updateNode now n) = quiet_part n"
  using updateStatus_quiet [of now n]
  by (simp add: quiet_part_def fixed_part_def updateNode_def Let_def)

lemma override_set_quiet: "quiet_part (override_set v n) = quiet_part n"
  by (simp add: quiet_part_def fixed_part_def override_set_def)

lemma store_set_default: "defaultSetpoint (store_set pf now n v s) = defaultSetpoint s"
  by (simp add: store_set_def Let_def)

lemma setpoint_set_quiet: "quiet_part (state_of (setpoint_set pf now v n)) = quiet_part n"
  by (simp add: quiet_part_def fixed_part_def setpoint_set_def store_set_default
      split: option.splits)

lemma updateAction_quiet: "quiet_part (state_of (updateAction pf now n)) = quiet_part n"
  by (simp add: quiet_part_def fixed_part_def updateAction_def split: option.splits)

lemma mode_fields_quiet:
  "quiet_part (n\<lparr>lastChange := a, lastHeatTime := b, lastCoolTime := c\<rparr>) = quiet_part n"
  "quiet_part (n\<lparr>lastAction := d\<rparr>) = quiet_part n"
  by (simp_all add: quiet_part_def fixed_part_def)

lemma handleModeChange_quiet:
  "quiet_part (state_of (handleModeChange pf now m n)) = quiet_part n"
proof -
  have off: "quiet_part (state_of (and_then (setpoint_set pf now JNull x)
               (\<lambda>n2. Done (updateNode now (override_set (JBool False) n2))))) = quiet_part x" for x
    by (subst and_then_keeps)
       (simp_all add: updateNode_quiet override_set_quiet setpoint_set_quiet)
  have rest: "quiet_part (state_of (and_then out
               (\<lambda>n2. and_then (updateAction pf now n2) (\<lambda>n3. Done (updateNode now n3))))) =
             quiet_part (state_of out)" for out
  proof (rule and_then_keeps)
    fix x
    show "quiet_part (state_of (and_then (updateAction pf now x) (\<lambda>n3. Done (updateNode now n3)))) =
          quiet_part x"
      by (subst and_then_keeps) (simp_all add: updateNode_quiet updateAction_quiet)
  qed
  show ?thesis
    unfolding handleModeChange_def Let_def
    by (simp add: off rest setpoint_set_quiet mode_fields_quiet)
qed

lemma mode_set_quiet: "quiet_part (state_of (mode_set pf now v n)) = quiet_part n"
  by (simp add: mode_set_def handleModeChange_quiet)

lemma action_set_quiet: "quiet_part (state_of (action_set pf now v n)) = quiet_part n"
  by (simp add: action_set_def handleModeChange_quiet)

lemma when_present_keeps:
  "(\<And>v x. g (state_of (f v x)) = g x) \<Longrightarrow> g (state_of (when_present ov f n)) = g n"
  by (cases ov) simp_all

lemma on_input_quiet: "quiet_part (state_of (on_input pf now m n)) = quiet_part n"
  unfolding on_input_def
  by (simp add: and_then_keeps when_present_keeps mode_set_quiet setpoint_set_quiet
      override_set_quiet action_set_quiet)

lemma on_mqttIn_quiet: "quiet_part (state_of (on_mqttIn pf now tp pl n)) = quiet_part n"
  unfolding on_mqttIn_def
  by (simp add: and_then_keeps mode_set_quiet setpoint_set_quiet)

lemma tick_disconnected:
  "\<not> isConnected now n \<Longrightarrow> tick pf now n = Done (updateStatus now n)"
  by (simp add: tick_def)

lemma step_quiet:
  "\<not> isConnected now n \<Longrightarrow> quiet_part (state_of (step pf now e n)) = quiet_part n"
  by (cases e) (simp_all add: on_input_quiet on_mqttIn_quiet tick_disconnected updateStatus_quiet)

section \<open>Liveness from the initial state\<close>

lemma quiet_lastSend: "quiet_part a = quiet_part b \<Longrightarrow> lastSend a = lastSend b"
  by (simp add: quiet_part_def)

lemma quiet_keepAlive: "quiet_part a = quiet_part b \<Longrightarrow> keepAliveMs a = keepAliveMs b"
  by (simp add: quiet_part_def fixed_part_def)

lemma never_sent_disconnected:
  "lastSend n = None \<Longrightarrow> \<not> lt (Num (of_int now)) (keepAliveMs n) \<Longrightarrow> \<not> isConnected now n"
  by (simp add: isConnected_def)

lemma run_never_sent:
  "lastSend n = None \<Longrightarrow> late_clock (keepAliveMs n) es \<Longrightarrow>
   lastSend (run pf n es) = None \<and> keepAliveMs (run pf n es) = keepAliveMs n"
proof (induction es arbitrary: n)
  case Nil
  then show ?case by simp
next
  case (Cons te es)
  obtain t e where te: "te = (t, e)" by (cases te)
  from Cons.prems te have late: "\<not> lt (Num (of_int t)) (keepAliveMs n)"
    and rest: "late_clock (keepAliveMs n) es"
    by (simp_all add: late_clock_def)
  let ?n' = "state_of (step pf t e n)"
  from never_sent_disconnected [OF Cons.prems(1) late]
  have q: "quiet_part ?n' = quiet_part n" by (rule step_quiet)
  have s: "lastSend ?n' = None" using quiet_lastSend [OF q] Cons.prems(1) by simp
  have k: "keepAliveMs ?n' = keepAliveMs n" by (rule quiet_keepAlive [OF q])
  from Cons.IH [OF s] rest k te show ?case by simp
qed

lemma createNode_never_sent: "lastSend (createNode pf c store) = None"
  by (simp add: createNode_def init_def initSetpoint_def construct_def)

text \<open>
  C9, amended. A node is created with \<^verbatim>\<open>lastSend\<close> unset, and \<open>isConnected\<close> then compares
  the clock itself with \<open>keepAliveMs\<close>. While the clock reads no less than \<open>keepAliveMs\<close>
  at every event, \<^verbatim>\<open>lastSend\<close> stays unset after any run of inputs, transport messages
  and ticks, \<open>isConnected\<close> stays false, and a tick does nothing but refresh the status:
  the recomputation branch is not reached.
\<close>

theorem never_connected:
  assumes "n0 = createNode pf c store"
    and "late_clock (keepAliveMs n0) es"
    and "\<not> lt (Num (of_int now)) (keepAliveMs n0)"
  shows "lastSend (run pf n0 es) = None \<and>
         \<not> isConnected now (run pf n0 es) \<and>
         tick pf now (run pf n0 es) = Done (updateStatus now (run pf n0 es))"
proof -
  from assms(1) have "lastSend n0 = None" by (simp add: createNode_never_sent)
  from run_never_sent [OF this assms(2), of pf]
  have s: "lastSend (run pf n0 es) = None" and k: "keepAliveMs (run pf n0 es) = keepAliveMs n0"
    by simp_all
  from assms(3) k have "\<not> lt (Num (of_int now)) (keepAliveMs (run pf n0 es))" by simp
  from never_sent_disconnected [OF s this] s show ?thesis
    by (simp add: tick_disconnected)
qed

theorem never_connected_witness:
  "late_clock (keepAliveMs heat_node) [(1762000000000, Tick), (1762000001000, MqttIn ''home/zone-climate/mode/set'' ''heat''), (1762000060000, Tick)] \<and>
   \<not> lt (Num (of_int 1762000120000)) (keepAliveMs heat_node) \<and>
   lastSend (run no_strings heat_node [(1762000000000, Tick), (1762000001000, MqttIn ''home/zone-climate/mode/set'' ''heat''), (1762000060000, Tick)]) = None \<and>
   \<not> isConnected 1762000120000 (run no_strings heat_node [(1762000000000, Tick), (1762000001000, MqttIn ''home/zone-climate/mode/set'' ''heat''), (1762000060000, Tick)])"
proof -
  have a: "heat_node = createNode no_strings heat_cfg Map.empty" by (simp add: heat_node_def)
  have b: "late_clock (keepAliveMs heat_node) [(1762000000000, Tick), (1762000001000, MqttIn ''home/zone-climate/mode/set'' ''heat''), (1762000060000, Tick)]"
    by (simp add: late_clock_def ev)
  have c: "\<not> lt (Num (of_int 1762000120000)) (keepAliveMs heat_node)" by (simp add: ev)
  from never_connected [OF a b c] b c show ?thesis by simp
qed

section \<open>A tick that recomputes\<close>

lemma tick_connected:
  "\<not> starting n \<Longrightarrow> isConnected now n \<Longrightarrow> updateAction pf now n = Done n1 \<Longrightarrow>
   tick pf now n =
     Done (updateStatus now (sendStatusUpdate now (updateNode now (runCutoff now
       (stampRunTime now
          (updateTemperature now (Some (parseFloat pf (temp_val (lastTemp n1)))) n1))))))"
  by (simp add: tick_def Let_def)

lemma updateStatus_fields [simp]:
  "lastSend (updateStatus now n) = lastSend n"
  "lastAction (updateStatus now n) = lastAction n"
  "lastChange (updateStatus now n) = lastChange n"
  "topic (updateStatus now n) = topic n"
  "advertise (updateStatus now n) = advertise n"
  "broker (updateStatus now n) = broker n"
  by (simp_all add: updateStatus_def)

lemma updateNode_fields [simp]:
  "lastSend (updateNode now n) = lastSend n"
  "lastAction (updateNode now n) = lastAction n"
  "lastChange (updateNode now n) = lastChange n"
  "topic (updateNode now n) = topic n"
  "advertise (updateNode now n) = advertise n"
  "broker (updateNode now n) = broker n"
  by (simp_all add: updateNode_def Let_def)

lemma can_publish_updateNode [simp]: "can_publish (updateNode now n) = can_publish n"
  by (simp add: can_publish_def)

lemma sendStatusUpdate_fields [simp]:
  "lastSend (sendStatusUpdate now n) = (if can_publish n then Some now else lastSend n)"
  "lastAction (sendStatusUpdate now n) = lastAction n"
  "lastChange (sendStatusUpdate now n) = lastChange n"
  by (simp_all add: sendStatusUpdate_def)

lemma updateTemperature_fields [simp]:
  "lastAction (updateTemperature now temp n) = lastAction n"
  "lastChange (updateTemperature now temp n) = lastChange n"
  "boostDurationMins (updateTemperature now temp n) = boostDurationMins n"
  "topic (updateTemperature now temp n) = topic n"
  "advertise (updateTemperature now temp n) = advertise n"
  "broker (updateTemperature now temp n) = broker n"
  by (cases temp; simp)+

lemma stampRunTime_fields [simp]:
  "lastAction (stampRunTime now n) = lastAction n"
  "lastChange (stampRunTime now n) = lastChange n"
  "boostDurationMins (stampRunTime now n) = boostDurationMins n"
  "topic (stampRunTime now n) = topic n"
  "advertise (stampRunTime now n) = advertise n"
  "broker (stampRunTime now n) = broker n"
  by (simp_all add: stampRunTime_def)

lemma runCutoff_fields [simp]:
  "lastChange (runCutoff now n) = lastChange n"
  "topic (runCutoff now n) = topic n"
  "advertise (runCutoff now n) = advertise n"
  "broker (runCutoff now n) = broker n"
  by (simp_all add: runCutoff_def)

lemma can_publish_steps [simp]:
  "can_publish (updateTemperature now temp n) = can_publish n"
  "can_publish (stampRunTime now n) = can_publish n"
  "can_publish (runCutoff now n) = can_publish n"
  by (simp_all add: can_publish_def del: updateTemperature.simps)

lemma updateAction_Done:
  "updateAction pf now n = Done n1 \<Longrightarrow> \<exists>a. n1 = n\<lparr>lastAction := Some a\<rparr>"
  by (auto simp: updateAction_def split: option.splits)

lemma tick_publishes:
  assumes "\<not> starting n" "isConnected now n" "updateAction pf now n = Done n1" "can_publish n"
  shows "lastSend (state_of (tick pf now n)) = Some now"
proof -
  from updateAction_Done [OF assms(3)] obtain a where "n1 = n\<lparr>lastAction := Some a\<rparr>" ..
  then have "can_publish n1 = can_publish n" by (simp add: can_publish_def)
  with assms(4) show ?thesis
    by (simp add: tick_connected [OF assms(1-3)] del: updateTemperature.simps)
qed

text \<open>
  C9 as stated fails for a keep-alive longer than the time since the epoch: the first
  tick then finds the node connected, recomputes and publishes.
\<close>

lemma patient_never_sent: "lastSend patient_node = None"
  by (simp add: patient_node_def ev)

lemma patient_connected: "isConnected 1762000000000 patient_node"
  by (simp add: patient_node_def ev isConnected_def)

lemma patient_updateAction: "updateAction no_strings 1762000000000 patient_node = Done (patient_node\<lparr>lastAction := Some NoAction\<rparr>)"
  by (simp add: updateAction_def patient_never_sent patient_node_def ev)

theorem connected_from_start_counterexample:
  "lastSend patient_node = None \<and>
   isConnected 1762000000000 patient_node \<and>
   lastSend (state_of (tick no_strings 1762000000000 patient_node)) = Some 1762000000000"
proof -
  have s: "\<not> starting patient_node" by (simp add: patient_node_def ev)
  have p: "can_publish patient_node" by (simp add: patient_node_def ev can_publish_def)
  from tick_publishes [OF s patient_connected patient_updateAction p] patient_never_sent patient_connected show ?thesis by simp
qed

section \<open>The default of the setpoint store\<close>

lemma quiet_fixed: "quiet_part a = quiet_part b \<Longrightarrow> fixed_part a = fixed_part b"
  by (simp add: quiet_part_def)

lemma fixed_steps [simp]:
  "fixed_part (updateTemperature now temp n) = fixed_part n"
  "fixed_part (stampRunTime now n) = fixed_part n"
  "fixed_part (runCutoff now n) = fixed_part n"
  "fixed_part (sendStatusUpdate now n) = fixed_part n"
  "fixed_part (updateNode now n) = fixed_part n"
  "fixed_part (updateStatus now n) = fixed_part n"
  by (cases temp)
     (simp_all add: fixed_part_def stampRunTime_def runCutoff_def sendStatusUpdate_def
        updateNode_def updateStatus_def Let_def)

lemma tick_fixed: "fixed_part (state_of (tick pf now n)) = fixed_part n"
proof (cases "starting n \<or> \<not> isConnected now n")
  case True
  then show ?thesis by (simp add: tick_def)
next
  case False
  have "fixed_part (state_of (and_then (updateAction pf now n) (\<lambda>n1.
          Done (updateStatus now (sendStatusUpdate now (updateNode now (runCutoff now
            (stampRunTime now
              (updateTemperature now (Some (parseFloat pf (temp_val (lastTemp n1)))) n1))))))))) =
        fixed_part (state_of (updateAction pf now n))"
    by (rule and_then_keeps) (simp del: updateTemperature.simps)
  with False show ?thesis
    by (simp add: tick_def Let_def quiet_fixed [OF updateAction_quiet])
qed

lemma step_fixed: "fixed_part (state_of (step pf now e n)) = fixed_part n"
  by (cases e) (simp_all add: quiet_fixed [OF on_input_quiet] quiet_fixed [OF on_mqttIn_quiet] tick_fixed)

lemma run_fixed: "fixed_part (run pf n es) = fixed_part n"
  by (induction es arbitrary: n) (auto simp: step_fixed)

lemma gt_not_le: "gt a b \<Longrightarrow> \<not> le a b"
  by (cases a; cases b) auto

lemma fixed_setpoints:
  "fixed_part a = fixed_part b \<Longrightarrow>
   getHeatSetpoint a = getHeatSetpoint b \<and> getCoolSetpoint a = getCoolSetpoint b \<and>
   defaultMode a = defaultMode b \<and>
   map_option defaultSetpoint (setpoint a) = map_option defaultSetpoint (setpoint b)"
  by (simp add: fixed_part_def getHeatSetpoint_def getCoolSetpoint_def getStoredValue_def)

lemma createNode_default:
  "map_option defaultSetpoint (setpoint (createNode pf c store)) =
     (if climateType c = ''manual'' then None
      else Some (if defaultMode (createNode pf c store) = Heat
                 then getHeatSetpoint (createNode pf c store)
                 else getCoolSetpoint (createNode pf c store)))"
  by (simp add: createNode_def init_def initSetpoint_def construct_def getHeatSetpoint_def
      getCoolSetpoint_def getStoredValue_def)

lemma createNode_defaultMode:
  "defaultMode (createNode pf c store) =
     (if climateType c = ''both'' then Auto else if climateType c = ''cool'' then Cool else Heat)"
  by (simp add: createNode_def init_def initSetpoint_def construct_def)

text \<open>
  C6, amended. On a node that has a setpoint object, after any run of events, once more
  than \<open>tempValidMs\<close> have passed since the last accepted set (or none was accepted),
  \<^verbatim>\<open>setpoint.get()\<close> returns the default the object captured when the node was created:
  the heat setpoint when the default mode is \<open>heat\<close> (a heating-only controller), the
  cool setpoint otherwise (a cooling-only or a heating-and-cooling controller). The
  current mode plays no part.
\<close>

theorem setpoint_get_expired:
  assumes "n = run pf (createNode pf c store) es"
    and "setpoint n = Some s"
    and "sp_lastChange s = None \<or>
         (\<exists>t. sp_lastChange s = Some t \<and> gt (Num (of_int (now - t))) (tempValidMs n))"
  shows "setpoint_get now n =
           Some (if defaultMode n = Heat then getHeatSetpoint n else getCoolSetpoint n) \<and>
         defaultMode n =
           (if climateType c = ''both'' then Auto
            else if climateType c = ''cool'' then Cool else Heat)"
proof -
  let ?n0 = "createNode pf c store"
  from assms(1) have f: "fixed_part n = fixed_part ?n0" by (simp add: run_fixed)
  from fixed_setpoints [OF f]
  have h: "getHeatSetpoint ?n0 = getHeatSetpoint n"
    and k: "getCoolSetpoint ?n0 = getCoolSetpoint n"
    and m: "defaultMode ?n0 = defaultMode n"
    and ds: "map_option defaultSetpoint (setpoint ?n0) = map_option defaultSetpoint (setpoint n)"
    by simp_all
  from ds assms(2) have "map_option defaultSetpoint (setpoint ?n0) = Some (defaultSetpoint s)"
    by simp
  then have "defaultSetpoint s =
      (if defaultMode ?n0 = Heat then getHeatSetpoint ?n0 else getCoolSetpoint ?n0)"
    unfolding createNode_default by (simp split: if_splits)
  then have d: "defaultSetpoint s =
      (if defaultMode n = Heat then getHeatSetpoint n else getCoolSetpoint n)"
    unfolding h k m .
  from assms(3) have "store_get now n s = defaultSetpoint s"
    by (auto simp: store_get_def dest: gt_not_le)
  with assms(2) have g: "setpoint_get now n = Some (defaultSetpoint s)"
    by (simp add: setpoint_get_def)
  from m have "defaultMode n =
      (if climateType c = ''both'' then Auto else if climateType c = ''cool'' then Cool else Heat)"
    unfolding createNode_defaultMode by simp
  with g d show ?thesis by simp
qed

text \<open>
  C6 as stated fails on the heating-and-cooling controller: in mode \<open>heat\<close>, with the
  setpoint of the mode change expired, \<^verbatim>\<open>setpoint.get()\<close> returns the cool setpoint 24,
  not the heat setpoint 18.
\<close>

lemma both_heat_mode:
  "mode_set no_strings 1000 (JString ''heat'') both_node =
     Done (updateNode 1000 (both_node
       \<lparr>lastChange := Some Heat,
        lastAction := Some NoAction,
        setpoint := Some \<lparr>sp_current = Some (Num 18), sp_lastChange = Some 1000,
                          defaultSetpoint = JNumber (Num 24)\<rparr>\<rparr>))"
  by (simp add: mode_set_def handleModeChange_def setpoint_set_def store_set_def
      updateAction_def Let_def both_node_def ev)

theorem default_ignores_mode_counterexample:
  "mode_get (state_of (mode_set no_strings 1000 (JString ''heat'') both_node)) = Heat \<and>
   setpoint_get 3601001 (state_of (mode_set no_strings 1000 (JString ''heat'') both_node)) =
     Some (JNumber (Num 24)) \<and>
   getCoolSetpoint (state_of (mode_set no_strings 1000 (JString ''heat'') both_node)) =
     JNumber (Num 24) \<and>
   getHeatSetpoint (state_of (mode_set no_strings 1000 (JString ''heat'') both_node)) =
     JNumber (Num 18)"
  unfolding both_heat_mode
  by (simp add: mode_get_def setpoint_get_def store_get_def updateNode_def
      updateStatus_def Let_def both_node_def ev)

lemma heat_set21:
  "run no_strings heat_node [(1000, Input set21)] =
     heat_node\<lparr>setpoint := Some \<lparr>sp_current = Some (Num 21), sp_lastChange = Some 1000,
                                 defaultSetpoint = JNumber (Num 18)\<rparr>\<rparr>"
  by (simp add: on_input_def set21_def setpoint_set_def store_set_def Let_def ev)

theorem setpoint_get_expired_witness:
  "setpoint_get 3600000 (run no_strings heat_node [(1000, Input set21)]) = Some (JNumber (Num 21)) \<and>
   setpoint_get 3601001 (run no_strings heat_node [(1000, Input set21)]) = Some (JNumber (Num 18))"
proof -
  let ?s = "\<lparr>sp_current = Some (Num 21), sp_lastChange = Some 1000,
            defaultSetpoint = JNumber (Num 18)\<rparr>"
  let ?n = "run no_strings heat_node [(1000, Input set21)]"
  have a: "?n = run no_strings (createNode no_strings heat_cfg Map.empty) [(1000, Input set21)]"
    by (simp add: heat_node_def)
  have b: "setpoint ?n = Some ?s" unfolding heat_set21 by simp
  have c: "sp_lastChange ?s = None \<or>
           (\<exists>t. sp_lastChange ?s = Some t \<and> gt (Num (of_int (3601001 - t))) (tempValidMs ?n))"
    unfolding heat_set21 by (simp add: ev)
  have d: "setpoint_get 3600000 ?n = Some (JNumber (Num 21))"
    unfolding heat_set21 by (simp add: setpoint_get_def store_get_def ev)
  have e: "defaultMode ?n = Heat" "getHeatSetpoint ?n = JNumber (Num 18)"
    unfolding heat_set21 by (simp_all add: ev)
  from setpoint_get_expired [OF a b c] d e show ?thesis
    by simp
qed

section \<open>Requests beyond the capabilities\<close>

lemma lastChange_steps [simp]:
  "lastChange (override_set v n) = lastChange n"
  "lastChange (state_of (setpoint_set pf now v n)) = lastChange n"
  "lastChange (state_of (updateAction pf now n)) = lastChange n"
  by (simp_all add: override_set_def setpoint_set_def updateAction_def split: option.splits)

lemma handleModeChange_lastChange:
  "lastChange (state_of (handleModeChange pf now m n)) = Some m"
proof -
  have off: "lastChange (state_of (and_then (setpoint_set pf now JNull x)
               (\<lambda>n2. Done (updateNode now (override_set (JBool False) n2))))) = lastChange x" for x
    by (subst and_then_keeps) simp_all
  have rest: "lastChange (state_of (and_then out
               (\<lambda>n2. and_then (updateAction pf now n2) (\<lambda>n3. Done (updateNode now n3))))) =
             lastChange (state_of out)" for out
  proof (rule and_then_keeps)
    fix x
    show "lastChange (state_of (and_then (updateAction pf now x) (\<lambda>n3. Done (updateNode now n3)))) =
          lastChange x"
      by (subst and_then_keeps) simp_all
  qed
  show ?thesis
    unfolding handleModeChange_def Let_def
    by (simp add: off rest)
qed

text \<open>
  An action-set request that names a capability the controller lacks (\<open>heating\<close> without
  heating, \<open>cooling\<close> without cooling) is dropped: the node is unchanged and nothing is
  emitted.
\<close>

lemma action_request_dropped:
  "a = JString ''heating'' \<and> \<not> hasHeating n \<or> a = JString ''cooling'' \<and> \<not> hasCooling n \<Longrightarrow>
   action_set pf now a n = Done n"
  by (auto simp: action_set_def)

text \<open>
  A mode-set request that names such a capability passes no guard of \<^verbatim>\<open>mode.set\<close> and
  reaches its last branch, which switches to \<open>auto\<close>.
\<close>

lemma mode_request_reaches_auto:
  "m = JString ''heat'' \<and> \<not> hasHeating n \<or> m = JString ''cool'' \<and> \<not> hasCooling n \<Longrightarrow>
   mode_set pf now m n = handleModeChange pf now Auto n \<and>
   lastChange (state_of (mode_set pf now m n)) = Some Auto"
  by (auto simp: mode_set_def handleModeChange_lastChange)

lemma cool_heat_request:
  "mode_set no_strings 1000 (JString ''heat'') cool_node =
     Done (updateNode 1000 (cool_node\<lparr>lastChange := Some Auto, lastAction := Some NoAction\<rparr>))"
  by (simp add: mode_set_def handleModeChange_def updateAction_def Let_def cool_node_def ev)

text \<open>
  C5 on the code. The cooling-only controller, fresh, is asked for mode \<open>heat\<close> at time
  1000. The request is not dropped: the mode becomes \<open>auto\<close> and a status and an update
  message are emitted. The action-set request for \<open>heating\<close> on the same node is dropped.
\<close>

theorem mode_request_not_dropped:
  "\<not> hasHeating cool_node \<and>
   lastChange cool_node = None \<and>
   lastChange (state_of (mode_set no_strings 1000 (JString ''heat'') cool_node)) = Some Auto \<and>
   emitted cool_node = [] \<and>
   length (emitted (state_of (mode_set no_strings 1000 (JString ''heat'') cool_node))) = 2 \<and>
   action_set no_strings 1000 (JString ''heating'') cool_node = Done cool_node"
proof -
  have h: "\<not> hasHeating cool_node" by (simp add: cool_node_def ev)
  then have "action_set no_strings 1000 (JString ''heating'') cool_node = Done cool_node"
    by (simp add: action_request_dropped)
  moreover have "lastChange cool_node = None" "emitted cool_node = []"
    by (simp_all add: cool_node_def ev)
  moreover have
    "lastChange (state_of (mode_set no_strings 1000 (JString ''heat'') cool_node)) = Some Auto"
    "length (emitted (state_of (mode_set no_strings 1000 (JString ''heat'') cool_node))) = 2"
    unfolding cool_heat_request
    by (simp_all add: updateNode_def updateStatus_def Let_def cool_node_def ev)
  ultimately show ?thesis using h by simp
qed

section \<open>The run-length cutoff\<close>

text \<open>
  The update loop stamps the run timestamp of the action in force and then compares the
  time since that timestamp with the boost duration: the time compared is 0. So with a
  boost duration above 0 a tick that recomputes ends with the action \<open>updateAction\<close>
  computed.
\<close>

lemma stamp_then_cutoff:
  assumes "gt (mul (mul (boostDurationMins n) (Num 60)) (Num 1000)) (Num 0)"
  shows "runCutoff now (stampRunTime now n) = stampRunTime now n"
proof -
  from assms have "\<not> run_expired now (Some now) (boostDurationMins n)"
    by (cases "boostDurationMins n") auto
  then show ?thesis
    by (simp add: runCutoff_def stampRunTime_def isHeating_def isCooling_def)
qed

lemma tick_never_cuts:
  assumes "\<not> starting n" "isConnected now n" "updateAction pf now n = Done n1"
    and "gt (mul (mul (boostDurationMins n) (Num 60)) (Num 1000)) (Num 0)"
  shows "lastAction (state_of (tick pf now n)) = lastAction n1"
proof -
  from updateAction_Done [OF assms(3)] obtain a where "n1 = n\<lparr>lastAction := Some a\<rparr>" ..
  then have b: "boostDurationMins n1 = boostDurationMins n" by simp
  let ?n2 = "updateTemperature now (Some (parseFloat pf (temp_val (lastTemp n1)))) n1"
  from b assms(4) have "gt (mul (mul (boostDurationMins ?n2) (Num 60)) (Num 1000)) (Num 0)"
    by (simp del: updateTemperature.simps)
  from stamp_then_cutoff [OF this] show ?thesis
    by (simp add: tick_connected [OF assms(1-3)] del: updateTemperature.simps)
qed

section \<open>Switching off\<close>

text \<open>
  \<^verbatim>\<open>handleModeChange('off')\<close> calls \<^verbatim>\<open>node.setpoint.set(null)\<close>, and \<^verbatim>\<open>set\<close> ignores
  \<^verbatim>\<open>null\<close>: the setpoint object is left as it was.
\<close>

lemma and_then_Done: "and_then out (\<lambda>x. Done x) = out"
  by (cases out) simp_all

lemma store_set_null: "store_set pf now n JNull s = s"
  by (simp add: store_set_def)

lemma same_setpoint: "setpoint x = Some s \<Longrightarrow> x\<lparr>setpoint := Some s\<rparr> = x"
  by (cases x) simp

lemma setpoint_set_null: "setpoint x = Some s \<Longrightarrow> setpoint_set pf now JNull x = Done x"
  by (simp add: setpoint_set_def store_set_null same_setpoint)

lemma mode_off_keeps_setpoint:
  assumes "setpoint n = Some s"
  shows "mode_set pf now (JString ''off'') n =
           Done (updateNode now (n\<lparr>lastChange := Some Off, lastHeatTime := None,
                   lastCoolTime := None, lastAction := Some NoAction, override := Some False\<rparr>))"
proof -
  let ?x = "n\<lparr>lastChange := Some Off, lastHeatTime := None, lastCoolTime := None,
              lastAction := Some NoAction\<rparr>"
  from assms have "setpoint ?x = Some s" by simp
  from setpoint_set_null [OF this, of pf now] show ?thesis
    by (simp add: mode_set_def handleModeChange_def Let_def override_set_def)
qed

text \<open>
  C3 on the code. The setpoint is set to 21 at time 1000 and the mode to \<open>off\<close> at time
  2000. The action is \<open>none\<close> and the override false, but the setpoint is not cleared:
  at time 3000 \<^verbatim>\<open>setpoint.get()\<close> still returns 21, not the default 18.
\<close>

theorem off_keeps_setpoint:
  "setpoint_get 3000 (run no_strings heat_node [(1000, Input set21), (2000, Input off_msg)]) =
     Some (JNumber (Num 21)) \<and>
   getHeatSetpoint (run no_strings heat_node [(1000, Input set21), (2000, Input off_msg)]) =
     JNumber (Num 18) \<and>
   lastAction (run no_strings heat_node [(1000, Input set21), (2000, Input off_msg)]) =
     Some NoAction \<and>
   override (run no_strings heat_node [(1000, Input set21), (2000, Input off_msg)]) = Some False"
proof -
  let ?s = "\<lparr>sp_current = Some (Num 21), sp_lastChange = Some 1000,
            defaultSetpoint = JNumber (Num 18)\<rparr>"
  let ?n1 = "heat_node\<lparr>setpoint := Some ?s\<rparr>"
  have r: "run no_strings heat_node [(1000, Input set21), (2000, Input off_msg)] =
           state_of (mode_set no_strings 2000 (JString ''off'') ?n1)"
  proof -
    have two: "run no_strings heat_node [(1000, Input set21), (2000, Input off_msg)] =
          run no_strings (run no_strings heat_node [(1000, Input set21)]) [(2000, Input off_msg)]"
      by simp
    have off: "run no_strings x [(2000, Input off_msg)] =
          state_of (mode_set no_strings 2000 (JString ''off'') x)" for x
      by (simp add: on_input_def off_msg_def and_then_Done)
    show ?thesis by (simp only: two heat_set21 off)
  qed
  have "setpoint ?n1 = Some ?s" by simp
  note o = mode_off_keeps_setpoint [OF this, of no_strings 2000]
  show ?thesis
    unfolding r o
    by (simp add: updateNode_def updateStatus_def Let_def setpoint_get_def store_get_def ev)
qed

section \<open>Setpoint requests that are not accepted\<close>

text \<open>
  C7 on the code. On a controller without the setpoint capability \<^verbatim>\<open>initSetpoint\<close>
  builds no setpoint object, so a setpoint request does not end as a no-op: reading
  \<^verbatim>\<open>set\<close> of \<^verbatim>\<open>undefined\<close> throws.
\<close>

theorem setpoint_request_throws:
  "\<not> hasSetpoint manual_node \<and>
   step no_strings 1000 (Input set21) manual_node = TypeError manual_node"
  by (simp add: on_input_def set21_def setpoint_set_def manual_node_def ev)

text \<open>
  On a node that has the setpoint object, a request whose value parses to no number or
  lies outside \<open>[minTemp, maxTemp]\<close> leaves the node as it was.
\<close>

lemma setpoint_set_rejected:
  assumes "setpoint n = Some s"
    and "isNaN (parseFloat pf v) \<or> \<not> ge (parseFloat pf v) (minTemp n) \<or>
         \<not> le (parseFloat pf v) (maxTemp n)"
  shows "setpoint_set pf now v n = Done n"
  using assms by (auto simp: setpoint_set_def store_set_def Let_def same_setpoint)

section \<open>Readings from a fresh node\<close>

text \<open>
  No handler passes a reading to \<^verbatim>\<open>updateTemperature\<close>: the \<^verbatim>\<open>temperature\<close> property of
  an input message goes to \<^verbatim>\<open>setpoint.set\<close>, and the update loop passes
  \<^verbatim>\<open>parseFloat(node.lastTemp)\<close>, which is \<open>NaN\<close> while \<^verbatim>\<open>lastTemp\<close> is \<^verbatim>\<open>null\<close>. So no
  run from a fresh node records a reading.
\<close>

lemma quiet_lastTemp: "quiet_part a = quiet_part b \<Longrightarrow> lastTemp a = lastTemp b"
  by (simp add: quiet_part_def)

lemma lastTemp_steps [simp]:
  "lastTemp (stampRunTime now n) = lastTemp n"
  "lastTemp (runCutoff now n) = lastTemp n"
  "lastTemp (sendStatusUpdate now n) = lastTemp n"
  "lastTemp (updateNode now n) = lastTemp n"
  "lastTemp (updateStatus now n) = lastTemp n"
  by (simp_all add: stampRunTime_def runCutoff_def sendStatusUpdate_def updateNode_def
      updateStatus_def Let_def)

lemma tick_no_reading:
  assumes "lastTemp n = None"
  shows "lastTemp (state_of (tick pf now n)) = None"
proof (cases "starting n \<or> \<not> isConnected now n")
  case True
  with assms show ?thesis by (simp add: tick_def)
next
  case False
  from assms have "updateAction pf now n = Done (n\<lparr>lastAction := Some NoAction\<rparr>)"
    by (simp add: updateAction_def)
  from tick_connected [OF _ _ this] False assms show ?thesis by simp
qed

lemma step_no_reading:
  "lastTemp n = None \<Longrightarrow> lastTemp (state_of (step pf now e n)) = None"
  by (cases e)
     (simp_all add: quiet_lastTemp [OF on_input_quiet] quiet_lastTemp [OF on_mqttIn_quiet]
        tick_no_reading)

lemma run_no_reading:
  "lastTemp n = None \<Longrightarrow> lastTemp (run pf n es) = None"
  by (induction es arbitrary: n) (auto simp: step_no_reading)

lemma createNode_no_reading: "lastTemp (run pf (createNode pf c store) es) = None"
  by (rule run_no_reading) (simp add: createNode_def init_def initSetpoint_def construct_def)

text \<open>
  With no reading \<open>updateAction\<close> sets the action to \<open>none\<close>, and nothing else sets it to
  \<open>heating\<close> or \<open>cooling\<close>: in no state that a run reaches from a fresh node is an action
  in force.
\<close>

lemma and_then_holds:
  "P (state_of out) \<Longrightarrow> (\<And>x. P x \<Longrightarrow> P (state_of (f x))) \<Longrightarrow> P (state_of (and_then out f))"
  by (cases out) simp_all

lemma when_present_holds:
  "P n \<Longrightarrow> (\<And>v x. P x \<Longrightarrow> P (state_of (f v x))) \<Longrightarrow> P (state_of (when_present ov f n))"
  by (cases ov) simp_all

lemma idle_steps [simp]:
  "idle (updateStatus now n) = idle n"
  "idle (updateNode now n) = idle n"
  "idle (override_set v n) = idle n"
  "idle (sendStatusUpdate now n) = idle n"
  "idle (state_of (setpoint_set pf now v n)) = idle n"
  by (simp_all add: idle_def isHeating_def isCooling_def updateStatus_def updateNode_def
      override_set_def sendStatusUpdate_def setpoint_set_def Let_def split: option.splits)

lemma idle_updateAction: "lastTemp n = None \<Longrightarrow> idle (state_of (updateAction pf now n))"
  by (simp add: idle_def isHeating_def isCooling_def updateAction_def)

lemma idle_loop_blocks:
  "idle n \<Longrightarrow> stampRunTime now n = n"
  "idle n \<Longrightarrow> runCutoff now n = n"
  "idle n \<Longrightarrow> updateTemperature now (Some (parseFloat pf (temp_val (lastTemp n)))) n = n"
  by (simp_all add: idle_def stampRunTime_def runCutoff_def)

lemma idle_handleModeChange:
  assumes "idle n"
  shows "idle (state_of (handleModeChange pf now m n))"
proof -
  let ?n1 = "n\<lparr>lastChange := Some m, lastHeatTime := None, lastCoolTime := None\<rparr>"
  from assms have n1: "idle (n\<lparr>lastChange := Some k, lastHeatTime := None, lastCoolTime := None\<rparr>)" for k
    by (simp add: idle_def isHeating_def isCooling_def)
  from assms have off0: "idle (?n1\<lparr>lastAction := Some NoAction\<rparr>)"
    by (simp add: idle_def isHeating_def isCooling_def)
  have off: "idle (state_of (and_then (setpoint_set pf now JNull (?n1\<lparr>lastAction := Some NoAction\<rparr>))
               (\<lambda>n2. Done (updateNode now (override_set (JBool False) n2)))))"
    by (rule and_then_holds [where P = idle]) (simp_all add: off0)
  have rest: "idle (state_of out) \<Longrightarrow>
      idle (state_of (and_then out
        (\<lambda>n2. and_then (updateAction pf now n2) (\<lambda>n3. Done (updateNode now n3)))))" for out
  proof (rule and_then_holds [where P = idle])
    fix x assume "idle x"
    then have "lastTemp x = None" by (simp add: idle_def)
    from idle_updateAction [OF this]
    show "idle (state_of (and_then (updateAction pf now x) (\<lambda>n3. Done (updateNode now n3))))"
      by (rule and_then_holds [where P = idle]) simp
  qed (assumption)
  show ?thesis
  proof (cases "m = Off")
    case True
    with off show ?thesis by (simp add: handleModeChange_def Let_def)
  next
    case False
    have "idle (state_of
            (if defaultMode ?n1 = Auto then
               (if m = Heat then setpoint_set pf now (getHeatSetpoint ?n1) ?n1
                else if m = Cool then setpoint_set pf now (getCoolSetpoint ?n1) ?n1
                else Done ?n1)
             else Done ?n1))"
      using n1 by simp
    from rest [OF this] False show ?thesis by (simp add: handleModeChange_def Let_def)
  qed
qed

lemma idle_mode_set: "idle n \<Longrightarrow> idle (state_of (mode_set pf now v n))"
  by (simp add: mode_set_def idle_handleModeChange)

lemma idle_action_set: "idle n \<Longrightarrow> idle (state_of (action_set pf now v n))"
  by (simp add: action_set_def idle_handleModeChange)

lemma idle_on_input:
  assumes "idle n"
  shows "idle (state_of (on_input pf now m n))"
  unfolding on_input_def
  by (intro and_then_holds [where P = idle] when_present_holds [where P = idle] assms)
     (simp_all add: idle_mode_set idle_action_set)

lemma idle_on_mqttIn: "idle n \<Longrightarrow> idle (state_of (on_mqttIn pf now tp pl n))"
  unfolding on_mqttIn_def
  by (rule and_then_holds [where P = idle]) (simp_all add: idle_mode_set)

lemma idle_tick:
  assumes "idle n"
  shows "idle (state_of (tick pf now n))"
proof (cases "starting n \<or> \<not> isConnected now n")
  case True
  with assms show ?thesis by (simp add: tick_def)
next
  case False
  from assms have t: "lastTemp n = None" by (simp add: idle_def)
  then have u: "updateAction pf now n = Done (n\<lparr>lastAction := Some NoAction\<rparr>)"
    by (simp add: updateAction_def)
  from t have i: "idle (n\<lparr>lastAction := Some NoAction\<rparr>)"
    by (simp add: idle_def isHeating_def isCooling_def)
  from False have "\<not> starting n" "isConnected now n" by simp_all
  from tick_connected [OF this u] i show ?thesis
    by (simp add: t idle_loop_blocks)
qed

lemma idle_step: "idle n \<Longrightarrow> idle (state_of (step pf now e n))"
  by (cases e) (simp_all add: idle_on_input idle_on_mqttIn idle_tick)

lemma idle_run: "idle n \<Longrightarrow> idle (run pf n es)"
  by (induction es arbitrary: n) (auto simp: idle_step)

lemma createNode_never_active:
  "lastTemp (run pf (createNode pf c store) es) = None \<and>
   \<not> isHeating (run pf (createNode pf c store) es) \<and>
   \<not> isCooling (run pf (createNode pf c store) es)"
proof -
  have "idle (createNode pf c store)"
    by (simp add: idle_def isHeating_def isCooling_def createNode_def init_def initSetpoint_def
        construct_def)
  from idle_run [OF this] show ?thesis by (simp add: idle_def)
qed

end
